theory Spec2Isabelle
  imports Complex_Main
begin

section \<open>JavaScript numbers\<close>

text \<open>
  The component of \<^verbatim>\<open>src/FinancialTableGenerator.jsx\<close> computes with JavaScript numbers:
  IEEE 754 doubles. A number is modelled as a finite value, one of the two infinities, or
  NaN. The finite values that arise are doubles, each given by the real number it stands
  for; the sign of zero is not modelled (no expression of the component tells the two
  zeros apart). The special values arise as they do in JavaScript: a failed parse gives
  NaN, the literal \<^verbatim>\<open>Infinity\<close> and an overflow give an infinity, and a division by zero
  gives an infinity or NaN.
\<close>

datatype jsnum = Fin real | PInf | NInf | NaN

subsection \<open>Rounding to a double\<close>

text \<open>
  Every arithmetic operation, number literal and parsed text yields the double nearest to
  the exact result (round to nearest, ties to even). A finite double is \<open>m * 2 ^ k\<close> for
  integers \<open>\<bar>m\<bar> < 2 ^ 53\<close> and \<open>-1074 \<le> k \<le> 971\<close>.
\<close>

fun bitLength :: "nat \<Rightarrow> nat" where
  "bitLength n = (if n = 0 then 0 else Suc (bitLength (n div 2)))"

declare bitLength.simps [simp del]

text \<open>For \<open>x > 0\<close>, the exponent \<open>e\<close> with \<open>2 ^ e \<le> x < 2 ^ (e + 1)\<close>.\<close>

definition floorLog2Below :: "real \<Rightarrow> int \<Rightarrow> int" where
  "floorLog2Below x b = (if x * 2 ^ nat (b - 1) = 1 then - (b - 1) else - b)"

definition floorLog2 :: "real \<Rightarrow> int" where
  "floorLog2 x =
     (if 1 \<le> x then int (bitLength (nat \<lfloor>x\<rfloor>)) - 1
      else floorLog2Below x (int (bitLength (nat \<lfloor>1 / x\<rfloor>))))"

definition scale2 :: "real \<Rightarrow> int \<Rightarrow> real" where
  "scale2 v e = (if 0 \<le> e then v * 2 ^ nat e else v / 2 ^ nat (- e))"

text \<open>The integer nearest to \<open>f + d\<close>, for an integer \<open>f\<close> and \<open>0 \<le> d < 1\<close>; the even one of two.\<close>

definition nearestEven :: "int \<Rightarrow> real \<Rightarrow> int" where
  "nearestEven f d =
     (if d < 1 / 2 then f else if 1 / 2 < d then f + 1 else if even f then f else f + 1)"

definition roundHalfEven :: "real \<Rightarrow> int" where
  "roundHalfEven y = nearestEven \<lfloor>y\<rfloor> (y - of_int \<lfloor>y\<rfloor>)"

text \<open>The multiple of \<open>2 ^ k\<close> nearest to \<open>a\<close>.\<close>

definition roundTo :: "real \<Rightarrow> int \<Rightarrow> real" where
  "roundTo a k = scale2 (of_int (roundHalfEven (scale2 a (- k)))) k"

text \<open>The number of magnitude \<open>y\<close> with the sign of \<open>x\<close>: an infinity from \<open>2 ^ 1024\<close> on.\<close>

definition withSign :: "real \<Rightarrow> real \<Rightarrow> jsnum" where
  "withSign x y =
     (if 2 ^ 1024 \<le> y then (if 0 < x then PInf else NInf) else Fin (if 0 < x then y else - y))"

text \<open>
  The double nearest to a real. A magnitude of \<open>2 ^ 1024\<close> or more is an infinity, and
  one of at most \<open>1 / 2 ^ 1075\<close> (half the least positive double) is zero. Otherwise the
  magnitude is rounded to a multiple of \<open>2 ^ k\<close>, where \<open>k\<close> leaves 53 bits and is at least
  \<open>-1074\<close>; rounding up may still reach \<open>2 ^ 1024\<close>, an infinity.
\<close>

definition roundDouble :: "real \<Rightarrow> jsnum" where
  "roundDouble x =
     (if 2 ^ 1024 \<le> \<bar>x\<bar> then withSign x \<bar>x\<bar>
      else if \<bar>x\<bar> \<le> 1 / 2 ^ 1075 then Fin 0
      else withSign x (roundTo \<bar>x\<bar> (max (floorLog2 \<bar>x\<bar> - 52) (- 1074))))"

text \<open>
  The arithmetic is a parameter of the model. \<open>Double\<close> is the arithmetic of the program.
  \<open>Exact\<close> is the same program over the real numbers, without rounding: the arithmetic of
  a statement that holds "in exact arithmetic".
\<close>

datatype arith = Double | Exact

fun rnd :: "arith \<Rightarrow> real \<Rightarrow> jsnum" where
  "rnd Double x = roundDouble x"
| "rnd Exact x = Fin x"

subsection \<open>Operations\<close>

text \<open>ToBoolean on a number: zero and NaN are falsy.\<close>

fun truthy :: "jsnum \<Rightarrow> bool" where
  "truthy (Fin a) = (a \<noteq> 0)"
| "truthy PInf = True"
| "truthy NInf = True"
| "truthy NaN = False"

text \<open>The expression \<^verbatim>\<open>x || 0\<close> on a number \<open>x\<close>.\<close>

definition orZero :: "jsnum \<Rightarrow> jsnum" where
  "orZero x = (if truthy x then x else Fin 0)"

fun jsneg :: "jsnum \<Rightarrow> jsnum" where
  "jsneg (Fin a) = Fin (- a)"
| "jsneg PInf = NInf"
| "jsneg NInf = PInf"
| "jsneg NaN = NaN"

fun jsadd :: "arith \<Rightarrow> jsnum \<Rightarrow> jsnum \<Rightarrow> jsnum" where
  "jsadd m NaN _ = NaN"
| "jsadd m _ NaN = NaN"
| "jsadd m (Fin a) (Fin b) = rnd m (a + b)"
| "jsadd m PInf NInf = NaN"
| "jsadd m NInf PInf = NaN"
| "jsadd m PInf _ = PInf"
| "jsadd m _ PInf = PInf"
| "jsadd m NInf _ = NInf"
| "jsadd m _ NInf = NInf"

definition jssub :: "arith \<Rightarrow> jsnum \<Rightarrow> jsnum \<Rightarrow> jsnum" where
  "jssub m a b = jsadd m a (jsneg b)"

fun jsmul :: "arith \<Rightarrow> jsnum \<Rightarrow> jsnum \<Rightarrow> jsnum" where
  "jsmul m NaN _ = NaN"
| "jsmul m _ NaN = NaN"
| "jsmul m (Fin a) (Fin b) = rnd m (a * b)"
| "jsmul m (Fin a) PInf = (if a = 0 then NaN else if 0 < a then PInf else NInf)"
| "jsmul m (Fin a) NInf = (if a = 0 then NaN else if 0 < a then NInf else PInf)"
| "jsmul m PInf (Fin b) = (if b = 0 then NaN else if 0 < b then PInf else NInf)"
| "jsmul m NInf (Fin b) = (if b = 0 then NaN else if 0 < b then NInf else PInf)"
| "jsmul m PInf PInf = PInf"
| "jsmul m NInf NInf = PInf"
| "jsmul m PInf NInf = NInf"
| "jsmul m NInf PInf = NInf"

text \<open>
  Division never raises in JavaScript: a zero divisor gives an infinity, or NaN for
  \<open>0 / 0\<close>. (The divisors of the component are never the negative zero: see
  \<open>orZero\<close>, which turns it into \<open>0\<close>.)
\<close>

fun jsdiv :: "arith \<Rightarrow> jsnum \<Rightarrow> jsnum \<Rightarrow> jsnum" where
  "jsdiv m NaN _ = NaN"
| "jsdiv m _ NaN = NaN"
| "jsdiv m (Fin a) (Fin b) =
     (if b \<noteq> 0 then rnd m (a / b) else if a = 0 then NaN else if 0 < a then PInf else NInf)"
| "jsdiv m (Fin a) PInf = Fin 0"
| "jsdiv m (Fin a) NInf = Fin 0"
| "jsdiv m PInf (Fin b) = (if 0 \<le> b then PInf else NInf)"
| "jsdiv m NInf (Fin b) = (if 0 \<le> b then NInf else PInf)"
| "jsdiv m _ _ = NaN"

text \<open>Comparisons: every comparison with NaN is false.\<close>

fun jsle :: "jsnum \<Rightarrow> jsnum \<Rightarrow> bool" where
  "jsle NaN _ = False"
| "jsle _ NaN = False"
| "jsle (Fin a) (Fin b) = (a \<le> b)"
| "jsle NInf _ = True"
| "jsle _ PInf = True"
| "jsle _ _ = False"

fun jslt :: "jsnum \<Rightarrow> jsnum \<Rightarrow> bool" where
  "jslt NaN _ = False"
| "jslt _ NaN = False"
| "jslt (Fin a) (Fin b) = (a < b)"
| "jslt PInf _ = False"
| "jslt _ NInf = False"
| "jslt _ _ = True"

definition jsgt :: "jsnum \<Rightarrow> jsnum \<Rightarrow> bool" where
  "jsgt a b = jslt b a"

definition jsge :: "jsnum \<Rightarrow> jsnum \<Rightarrow> bool" where
  "jsge a b = jsle b a"

text \<open>\<^verbatim>\<open>Math.abs\<close>.\<close>

fun jsabs :: "jsnum \<Rightarrow> jsnum" where
  "jsabs (Fin a) = Fin \<bar>a\<bar>"
| "jsabs PInf = PInf"
| "jsabs NInf = PInf"
| "jsabs NaN = NaN"

section \<open>Strings and \<^verbatim>\<open>parseFloat\<close>\<close>

text \<open>
  A string is modelled by the bytes of its UTF-8 encoding: ASCII text stands for itself,
  and a character outside ASCII is the sequence of its bytes.
\<close>

definition startsWith :: "string \<Rightarrow> string \<Rightarrow> bool" where
  "startsWith s p = (take (length p) s = p)"

definition is_digit :: "char \<Rightarrow> bool" where
  "is_digit c = (c \<in> set ''0123456789'')"

text \<open>
  The white space and line terminators of ECMAScript, which \<^verbatim>\<open>parseFloat\<close> trims from the
  start of its argument. In one byte: tab, line feed, vertical tab, form feed, carriage
  return and space. In two bytes: U+00A0. In three bytes: U+1680, U+2000 to U+200A,
  U+2028, U+2029, U+202F, U+205F, U+3000 and U+FEFF.
\<close>

definition is_ws :: "char \<Rightarrow> bool" where
  "is_ws c = (c \<in> {CHR 0x09, CHR 0x0A, CHR 0x0B, CHR 0x0C, CHR 0x0D, CHR 0x20})"

definition is_ws2 :: "char \<Rightarrow> char \<Rightarrow> bool" where
  "is_ws2 a b = (a = CHR 0xC2 \<and> b = CHR 0xA0)"

definition is_ws3 :: "char \<Rightarrow> char \<Rightarrow> char \<Rightarrow> bool" where
  "is_ws3 a b c =
     ((a = CHR 0xE1 \<and> b = CHR 0x9A \<and> c = CHR 0x80) \<or>
      (a = CHR 0xE2 \<and> b = CHR 0x80 \<and>
         c \<in> {CHR 0x80, CHR 0x81, CHR 0x82, CHR 0x83, CHR 0x84, CHR 0x85, CHR 0x86, CHR 0x87,
              CHR 0x88, CHR 0x89, CHR 0x8A, CHR 0xA8, CHR 0xA9, CHR 0xAF}) \<or>
      (a = CHR 0xE2 \<and> b = CHR 0x81 \<and> c = CHR 0x9F) \<or>
      (a = CHR 0xE3 \<and> b = CHR 0x80 \<and> c = CHR 0x80) \<or>
      (a = CHR 0xEF \<and> b = CHR 0xBB \<and> c = CHR 0xBF))"

fun trimStart :: "string \<Rightarrow> string" where
  "trimStart (a # b # c # s) =
     (if is_ws a then trimStart (b # c # s)
      else if is_ws2 a b then trimStart (c # s)
      else if is_ws3 a b c then trimStart s
      else a # b # c # s)"
| "trimStart [a, b] =
     (if is_ws a then trimStart [b] else if is_ws2 a b then [] else [a, b])"
| "trimStart [a] = (if is_ws a then [] else [a])"
| "trimStart [] = []"

definition digitValue :: "char \<Rightarrow> nat" where
  "digitValue c = of_char c - 48"

definition digitsValue :: "string \<Rightarrow> nat" where
  "digitsValue ds = foldl (\<lambda>n c. 10 * n + digitValue c) 0 ds"

definition stripSign :: "string \<Rightarrow> bool \<times> string" where
  "stripSign s =
     (case s of
        [] \<Rightarrow> (False, [])
      | c # r \<Rightarrow> if c = CHR ''-'' then (True, r) else if c = CHR ''+'' then (False, r) else (False, s))"

text \<open>
  The value of an optional exponent part \<^verbatim>\<open>e\<close>, \<^verbatim>\<open>E\<close> followed by an optionally
  signed run of digits; \<open>0\<close> when the text does not start with a complete one.
\<close>

definition exponentPart :: "string \<Rightarrow> int" where
  "exponentPart s =
     (case s of
        [] \<Rightarrow> 0
      | c # r \<Rightarrow>
          if c = CHR ''e'' \<or> c = CHR ''E'' then
            (let (neg, d) = stripSign r; ds = takeWhile is_digit d
             in if ds = [] then 0 else if neg then - int (digitsValue ds) else int (digitsValue ds))
          else 0)"

definition scale10 :: "real \<Rightarrow> int \<Rightarrow> real" where
  "scale10 v e = (if 0 \<le> e then v * 10 ^ nat e else v / 10 ^ nat (- e))"

text \<open>
  \<^verbatim>\<open>parseFloat\<close> (ECMAScript 19.2.4): leading white space is trimmed, and the longest
  prefix of the rest that is a \<^verbatim>\<open>StrDecimalLiteral\<close> is read: an optional sign, then
  \<^verbatim>\<open>Infinity\<close>, or digits with an optional fraction and an optional exponent. Whatever
  follows the prefix is ignored; NaN when there is no such prefix. The result is the
  number nearest to the decimal value read.
\<close>

definition parseFloat :: "arith \<Rightarrow> string \<Rightarrow> jsnum" where
  "parseFloat m s =
     (let (neg, u) = stripSign (trimStart s) in
      if startsWith u ''Infinity'' then (if neg then NInf else PInf)
      else
        let ip = takeWhile is_digit u;
            r1 = dropWhile is_digit u;
            hasDot = (r1 \<noteq> [] \<and> hd r1 = CHR ''.'');
            fp = (if hasDot then takeWhile is_digit (tl r1) else []);
            r2 = (if hasDot then dropWhile is_digit (tl r1) else r1)
        in if ip = [] \<and> fp = [] then NaN
           else
             let v = scale10 (real (digitsValue (ip @ fp)) / 10 ^ length fp) (exponentPart r2)
             in rnd m (if neg then - v else v))"

text \<open>
  The texts in which \<^verbatim>\<open>parseFloat\<close> finds a number: after the leading white space and
  an optional sign comes \<^verbatim>\<open>Infinity\<close>, a digit, or a point followed by a digit.
\<close>

definition startsNumber :: "string \<Rightarrow> bool" where
  "startsNumber s =
     (let u = snd (stripSign (trimStart s)) in
      startsWith u ''Infinity'' \<or>
      (case u of
         [] \<Rightarrow> False
       | c # r \<Rightarrow> is_digit c \<or> (c = CHR ''.'' \<and> (case r of [] \<Rightarrow> False | d # _ \<Rightarrow> is_digit d))))"

section \<open>The data model\<close>

text \<open>
  The objects of the component: a line item \<^verbatim>\<open>{name, amount}\<close> as typed, a parsed item
  \<^verbatim>\<open>{name, value}\<close>, and a row \<^verbatim>\<open>{name, value, percent}\<close> of the report table.
\<close>

record named =
  name :: string

record lineItem = named +
  amount :: string

record parsedItem = named +
  "value" :: jsnum

record reportRow = parsedItem +
  percent :: string

definition INPUT_CATEGORIES :: "string list" where
  "INPUT_CATEGORIES =
     [''Earnings'', ''Rent/Interest Paid'', ''Insurance Paid'', ''Maintenance'',
      ''Rates (Taxes)'', ''Principal Paid'']"

definition PERIOD_OPTIONS :: "string list" where
  "PERIOD_OPTIONS = [''Q1'', ''Q2'', ''Q3'', ''Q4'', ''6 Months'', ''Full Year'']"

text \<open>\<^verbatim>\<open>Array.prototype.slice(b, e)\<close> for indices \<open>0 \<le> b \<le> e\<close>.\<close>

definition slice :: "nat \<Rightarrow> nat \<Rightarrow> 'a list \<Rightarrow> 'a list" where
  "slice b e xs = take (e - b) (drop b xs)"

text \<open>
  Line 22: the initial items of the form. Lines 37 to 39: the row that "Add Category"
  appends.
\<close>

definition initialItems :: "lineItem list" where
  "initialItems = map (\<lambda>n. \<lparr>name = n, amount = ''''\<rparr>) INPUT_CATEGORIES"

definition handleAddRow :: "lineItem list \<Rightarrow> lineItem list" where
  "handleAddRow prev = prev @ [\<lparr>name = '''', amount = ''''\<rparr>]"

text \<open>
  Lines 33 to 35: \<^verbatim>\<open>handleChange(index, field, value)\<close> replaces one field of the item
  at \<open>index\<close> and leaves the list as it is when there is no such item. The form calls it
  with the field \<^verbatim>\<open>amount\<close> only (line 146): the name of a row has no change handler.
\<close>

definition updateField :: "string \<Rightarrow> string \<Rightarrow> lineItem \<Rightarrow> lineItem" where
  "updateField field v it =
     (if field = ''amount'' then it\<lparr>amount := v\<rparr>
      else if field = ''name'' then it\<lparr>name := v\<rparr>
      else it)"

definition handleChange :: "nat \<Rightarrow> string \<Rightarrow> string \<Rightarrow> lineItem list \<Rightarrow> lineItem list" where
  "handleChange index field v prev =
     (if index < length prev then prev[index := updateField field v (prev ! index)] else prev)"

text \<open>
  The shape of the item lists that the form can hold: the six reserved names in their
  order, followed by added rows, whose names are empty.
\<close>

definition reservedThenAdded :: "lineItem list \<Rightarrow> bool" where
  "reservedThenAdded items =
     (map name items = INPUT_CATEGORIES @ replicate (length items - length INPUT_CATEGORIES) '''')"

section \<open>The derivation\<close>

text \<open>
  Every function of the derivation takes the arithmetic \<open>m\<close> first. Line 50:
  \<^verbatim>\<open>parseFloat(it.amount.replace(/,/g, '')) || 0\<close>. The amount is always a string (the
  state holds strings only), so nothing here can throw.
\<close>

definition removeCommas :: "string \<Rightarrow> string" where
  "removeCommas s = filter (\<lambda>c. c \<noteq> CHR '','') s"

definition parseAmount :: "arith \<Rightarrow> string \<Rightarrow> jsnum" where
  "parseAmount m raw = orZero (parseFloat m (removeCommas raw))"

definition parsed :: "arith \<Rightarrow> lineItem list \<Rightarrow> parsedItem list" where
  "parsed m items = map (\<lambda>it. \<lparr>name = name it, value = parseAmount m (amount it)\<rparr>) items"

text \<open>The expression \<^verbatim>\<open>o?.value || 0\<close> on the result \<open>o\<close> of \<^verbatim>\<open>Array.prototype.find\<close>.\<close>

definition valueOrZero :: "parsedItem option \<Rightarrow> jsnum" where
  "valueOrZero r = (case r of None \<Rightarrow> Fin 0 | Some n \<Rightarrow> orZero (value n))"

definition income :: "arith \<Rightarrow> lineItem list \<Rightarrow> jsnum" where
  "income m items = valueOrZero (find (\<lambda>n. name n = ''Earnings'') (parsed m items))"

definition nonPrincipal :: "arith \<Rightarrow> lineItem list \<Rightarrow> jsnum" where
  "nonPrincipal m items =
     foldl (\<lambda>sum n. jsadd m sum (value n)) (Fin 0)
       (filter (\<lambda>n. name n \<in> set (slice 1 5 INPUT_CATEGORIES)) (parsed m items))"

text \<open>
  Lines 14 to 17. The three labels that \<^verbatim>\<open>getClassification\<close> returns; the
  less-or-equal sign of the first and the dash of the second are written as their UTF-8
  bytes.
\<close>

definition Ideal :: string where
  "Ideal = ''Ideal ('' @ [CHR 0xE2, CHR 0x89, CHR 0xA4] @ ''30%)''"

definition CostBurdened :: string where
  "CostBurdened = ''Cost-burdened (30'' @ [CHR 0xE2, CHR 0x80, CHR 0x93] @ ''50%)''"

definition SeverelyCostBurdened :: string where
  "SeverelyCostBurdened = ''Severely cost-burdened (>50%)''"

definition getClassification :: "jsnum \<Rightarrow> string" where
  "getClassification pct =
     (if jsle pct (Fin 30) then Ideal
      else if jsle pct (Fin 50) then CostBurdened
      else SeverelyCostBurdened)"

text \<open>
  Lines 58 to 61. A number literal such as \<^verbatim>\<open>0.3\<close> is the number nearest to its decimal
  value; the literals 0, 4, 30, 50 and 100 are doubles as they stand.
\<close>

definition exp30 :: "arith \<Rightarrow> lineItem list \<Rightarrow> jsnum" where
  "exp30 m items = jsmul m (income m items) (rnd m (3 / 10))"

definition exp50 :: "arith \<Rightarrow> lineItem list \<Rightarrow> jsnum" where
  "exp50 m items = jsmul m (income m items) (rnd m (5 / 10))"

definition pctIncome :: "arith \<Rightarrow> lineItem list \<Rightarrow> jsnum" where
  "pctIncome m items =
     (if truthy (income m items)
      then jsmul m (jsdiv m (nonPrincipal m items) (income m items)) (Fin 100)
      else Fin 0)"

definition classification :: "arith \<Rightarrow> lineItem list \<Rightarrow> string" where
  "classification m items = getClassification (pctIncome m items)"

text \<open>
  Lines 66 to 68. The period is a string (the state of the select box, or the
  \<^verbatim>\<open>initialPeriod\<close> property), so the \<^verbatim>\<open>typeof\<close> test of line 66 holds.
\<close>

definition weeks :: "string \<Rightarrow> nat" where
  "weeks period =
     (if startsWith period ''Q'' then 13 else if period = ''6 Months'' then 26 else 52)"

definition weeklyRent :: "arith \<Rightarrow> string \<Rightarrow> lineItem list \<Rightarrow> jsnum" where
  "weeklyRent m period items = jsdiv m (nonPrincipal m items) (Fin (real (weeks period)))"

definition affordableWeekly :: "arith \<Rightarrow> string \<Rightarrow> lineItem list \<Rightarrow> jsnum" where
  "affordableWeekly m period items =
     (if truthy (income m items)
      then jsmul m (jsdiv m (income m items) (Fin (real (weeks period)))) (rnd m (3 / 10))
      else Fin 0)"

text \<open>Lines 70 to 80.\<close>

definition finalItems :: "arith \<Rightarrow> string \<Rightarrow> lineItem list \<Rightarrow> parsedItem list" where
  "finalItems m period items =
     (let base =
        parsed m items @
        [\<lparr>name = ''Total Non-Principal Housing Expense'', value = nonPrincipal m items\<rparr>,
         \<lparr>name = ''Total Mortgage Outlay'',
          value =
            jsadd m (valueOrZero (find (\<lambda>n. name n = ''Rent/Interest Paid'') (parsed m items)))
                    (valueOrZero (find (\<lambda>n. name n = ''Principal Paid'') (parsed m items)))\<rparr>]
      in base @
        [\<lparr>name = ''Estimated Weekly Rent'', value = weeklyRent m period items\<rparr>,
         \<lparr>name = ''Affordable Weekly Rent'', value = affordableWeekly m period items\<rparr>])"

section \<open>Formatting\<close>

text \<open>
  Two functions of the host are parameters of the model:
  \<^item> \<open>numberFormat\<close> is \<^verbatim>\<open>s => numberFormatter.format(Number(s))\<close> of line 29, where
    \<^verbatim>\<open>numberFormatter = new Intl.NumberFormat()\<close> formats in the locale of the browser;
  \<^item> \<open>numberToString\<close> is the decimal text of a finite number of magnitude at least
    \<open>10 ^ 21\<close>, which \<^verbatim>\<open>toFixed\<close> falls back to (the shortest digits that read back as
    the same double, in exponent form).
\<close>

record host =
  numberFormat :: "string \<Rightarrow> string"
  numberToString :: "real \<Rightarrow> string"

definition digitChar :: "nat \<Rightarrow> char" where
  "digitChar d = ''0123456789'' ! d"

fun digitsOf :: "nat \<Rightarrow> string" where
  "digitsOf n = (if n < 10 then [digitChar n] else digitsOf (n div 10) @ [digitChar (n mod 10)])"

declare digitsOf.simps [simp del]

text \<open>
  \<^verbatim>\<open>Number.prototype.toFixed(2)\<close> (ECMAScript 21.1.3.3). A value that is not finite
  prints as its name. Otherwise the sign is split off, and below \<open>10 ^ 21\<close> the integer
  \<open>n\<close> nearest to a hundred times the magnitude (the larger one of two) is printed with
  a point before its last two digits, padded to three digits. The magnitude is the exact
  value of the number, so no rounding happens besides the choice of \<open>n\<close>.
\<close>

definition toFixed2 :: "host \<Rightarrow> jsnum \<Rightarrow> string" where
  "toFixed2 h x =
     (case x of
        NaN \<Rightarrow> ''NaN''
      | PInf \<Rightarrow> ''Infinity''
      | NInf \<Rightarrow> ''-Infinity''
      | Fin r \<Rightarrow>
          (let s = (if r < 0 then ''-'' else ''''); a = \<bar>r\<bar>
           in if 10 ^ 21 \<le> a then s @ numberToString h a
              else
                let n = nat \<lfloor>a * 100 + 1 / 2\<rfloor>;
                    m = digitsOf n;
                    m = (if length m \<le> 2 then replicate (3 - length m) (CHR ''0'') @ m else m);
                    k = length m
                in s @ take (k - 2) m @ ''.'' @ drop (k - 2) m))"

text \<open>
  The first two elements of \<^verbatim>\<open>s.split('.')\<close>, as the destructuring of line 28 reads
  them: the second is undefined when \<open>s\<close> has no point.
\<close>

definition splitDot :: "string \<Rightarrow> string \<times> string option" where
  "splitDot s =
     (let rest = dropWhile (\<lambda>c. c \<noteq> CHR ''.'') s
      in (takeWhile (\<lambda>c. c \<noteq> CHR ''.'') s,
          if rest = [] then None else Some (takeWhile (\<lambda>c. c \<noteq> CHR ''.'') (tl rest))))"

text \<open>Lines 27 to 31. An undefined value prints as \<^verbatim>\<open>undefined\<close> in a template.\<close>

definition formatAmount :: "host \<Rightarrow> jsnum \<Rightarrow> string" where
  "formatAmount h amt =
     (let (intPart, decPart) = splitDot (toFixed2 h amt);
          formattedInt = numberFormat h intPart
      in case decPart of
           None \<Rightarrow> formattedInt @ ''.'' @ ''undefined''
         | Some d \<Rightarrow> if d = ''00'' then formattedInt else formattedInt @ ''.'' @ d)"

section \<open>The report\<close>

text \<open>
  Line 94: the percent text of an ordinary row of value \<open>v\<close>, empty when the income is
  zero.
\<close>

definition percentOfIncome :: "arith \<Rightarrow> host \<Rightarrow> lineItem list \<Rightarrow> jsnum \<Rightarrow> string" where
  "percentOfIncome m h items v =
     (if truthy (income m items)
      then toFixed2 h (jsmul m (jsdiv m v (income m items)) (Fin 100)) @ ''%''
      else '''')"

text \<open>Lines 82 to 95: the row of the table made from one of the final items.\<close>

definition tableRow ::
  "arith \<Rightarrow> host \<Rightarrow> string \<Rightarrow> lineItem list \<Rightarrow> parsedItem \<Rightarrow> reportRow" where
  "tableRow m h period items it =
     (if name it = ''Estimated Weekly Rent'' then
        (let diff = jssub m (value it) (affordableWeekly m period items)
         in \<lparr>name = name it, value = value it,
             percent =
               (if jsgt diff (Fin 0) then ''Overspending by $'' @ formatAmount h diff
                else ''Under by $'' @ formatAmount h (jsabs diff))\<rparr>)
      else if name it \<in> set [''Affordable Weekly Rent'', ''Earnings''] then
        \<lparr>name = name it, value = value it, percent = ''''\<rparr>
      else
        \<lparr>name = name it, value = value it, percent = percentOfIncome m h items (value it)\<rparr>)"

definition tableData :: "arith \<Rightarrow> host \<Rightarrow> string \<Rightarrow> lineItem list \<Rightarrow> reportRow list" where
  "tableData m h period items = map (tableRow m h period items) (finalItems m period items)"

text \<open>Line 97.\<close>

definition chartItems :: "arith \<Rightarrow> host \<Rightarrow> string \<Rightarrow> lineItem list \<Rightarrow> reportRow list" where
  "chartItems m h period items =
     filter (\<lambda>d. name d \<noteq> ''Earnings'' \<and> jsge (parseFloat m (percent d)) (Fin 4))
       (tableData m h period items)"

text \<open>Lines 99 to 110.\<close>

definition totalDiff :: "arith \<Rightarrow> string \<Rightarrow> lineItem list \<Rightarrow> jsnum" where
  "totalDiff m period items =
     jsmul m (jssub m (weeklyRent m period items) (affordableWeekly m period items))
       (Fin (real (weeks period)))"

text \<open>Line 105: the percent of income printed for the principal paid, of value \<open>v\<close>.\<close>

definition principalPercent :: "arith \<Rightarrow> host \<Rightarrow> lineItem list \<Rightarrow> jsnum \<Rightarrow> string" where
  "principalPercent m h items v =
     (if truthy (income m items)
      then toFixed2 h (jsmul m (jsdiv m v (income m items)) (Fin 100))
      else ''0.00'')"

definition templates :: "arith \<Rightarrow> host \<Rightarrow> string \<Rightarrow> lineItem list \<Rightarrow> string list" where
  "templates m h period items =
     [''Non-Principal Housing Expense ('' @ period @ ''): $'' @
        formatAmount h (nonPrincipal m items) @ '' ('' @ toFixed2 h (pctIncome m items) @
        ''% of income)'',
      ''Classification: '' @ classification m items]
     @ (case find (\<lambda>d. name d = ''Principal Paid'') (parsed m items) of
          None \<Rightarrow> []
        | Some pp \<Rightarrow>
            [''Principal Paid: $'' @ formatAmount h (value pp) @ '' ('' @
               principalPercent m h items (value pp) @ ''% of income)''])
     @ [if jsgt (totalDiff m period items) (Fin 0)
        then ''Total overspending for '' @ period @ '': $'' @
               formatAmount h (totalDiff m period items)
        else ''Total savings for '' @ period @ '': $'' @
               formatAmount h (jsabs (totalDiff m period items))]"

section \<open>A host to run the model on\<close>

text \<open>
  The \<^verbatim>\<open>en-US\<close> locale: digits in groups of three, separated by commas (as printed for
  integers below \<open>2 ^ 53\<close>). The infinity sign is written as its UTF-8 bytes. Beyond
  \<open>10 ^ 21\<close> the number is printed in exponent form from the digits of its integer part.
\<close>

fun groupRev :: "string \<Rightarrow> string" where
  "groupRev (a # b # c # d # r) = a # b # c # CHR '','' # groupRev (d # r)"
| "groupRev s = s"

definition group3 :: "string \<Rightarrow> string" where
  "group3 s = rev (groupRev (rev s))"

definition enUS_numberFormat :: "string \<Rightarrow> string" where
  "enUS_numberFormat s =
     (case parseFloat Double s of
        NaN \<Rightarrow> ''NaN''
      | PInf \<Rightarrow> [CHR 0xE2, CHR 0x88, CHR 0x9E]
      | NInf \<Rightarrow> ''-'' @ [CHR 0xE2, CHR 0x88, CHR 0x9E]
      | Fin r \<Rightarrow>
          (if r < 0 \<or> startsWith s ''-'' then ''-'' else '''') @ group3 (digitsOf (nat \<lfloor>\<bar>r\<bar>\<rfloor>)))"

definition enUS_numberToString :: "real \<Rightarrow> string" where
  "enUS_numberToString r =
     (let ds = digitsOf (nat \<lfloor>r\<rfloor>);
          frac = rev (dropWhile (\<lambda>c. c = CHR ''0'') (rev (drop 1 ds)))
      in take 1 ds @ (if frac = [] then [] else ''.'' @ frac) @ ''e+'' @ digitsOf (length ds - 1))"

definition enUS :: host where
  "enUS = \<lparr>numberFormat = enUS_numberFormat, numberToString = enUS_numberToString\<rparr>"

section \<open>The divisions, with their divisors checked\<close>

text \<open>
  JavaScript divides by zero without complaint. To state that no division of the
  derivation has a zero divisor, each expression that divides (lines 60, 67, 68, 94 and
  105) is written once more with its division checked: the result is \<open>None\<close> as soon as
  a division with the divisor zero is evaluated, and the value of the expression
  otherwise.
\<close>

definition checkedDiv :: "arith \<Rightarrow> jsnum \<Rightarrow> jsnum \<Rightarrow> jsnum option" where
  "checkedDiv m a b = (if b = Fin 0 then None else Some (jsdiv m a b))"




definition percentOfIncome_checked ::
  "arith \<Rightarrow> host \<Rightarrow> lineItem list \<Rightarrow> jsnum \<Rightarrow> string option" where
  "percentOfIncome_checked m h items v =
     (if truthy (income m items)
      then map_option (\<lambda>q. toFixed2 h (jsmul m q (Fin 100)) @ ''%'')
             (checkedDiv m v (income m items))
      else Some '''')"


section \<open>Examples\<close>

text \<open>
  The items of the worked example: earnings 1000, rent or interest 300, insurance 50,
  maintenance 20, rates 30 and principal 100.
\<close>

definition exampleItems :: "lineItem list" where
  "exampleItems =
     [\<lparr>name = ''Earnings'', amount = ''1000''\<rparr>,
      \<lparr>name = ''Rent/Interest Paid'', amount = ''300''\<rparr>,
      \<lparr>name = ''Insurance Paid'', amount = ''50''\<rparr>,
      \<lparr>name = ''Maintenance'', amount = ''20''\<rparr>,
      \<lparr>name = ''Rates (Taxes)'', amount = ''30''\<rparr>,
      \<lparr>name = ''Principal Paid'', amount = ''100''\<rparr>]"

text \<open>Items whose total is not a number: an infinity and its opposite, and no earnings.\<close>

definition infiniteItems :: "lineItem list" where
  "infiniteItems =
     [\<lparr>name = ''Rent/Interest Paid'', amount = ''Infinity''\<rparr>,
      \<lparr>name = ''Insurance Paid'', amount = ''-Infinity''\<rparr>]"

text \<open>Items whose sum and whose percent of income are rounded on the way.\<close>

definition roundedItems :: "lineItem list" where
  "roundedItems =
     [\<lparr>name = ''Earnings'', amount = ''105,400''\<rparr>,
      \<lparr>name = ''Rent/Interest Paid'', amount = ''647.35''\<rparr>,
      \<lparr>name = ''Insurance Paid'', amount = ''155.32''\<rparr>,
      \<lparr>name = ''Maintenance'', amount = ''13.49''\<rparr>,
      \<lparr>name = ''Rates (Taxes)'', amount = ''83.84''\<rparr>,
      \<lparr>name = ''Principal Paid'', amount = ''4210.73''\<rparr>]"

section \<open>Basic facts\<close>

subsection \<open>Numbers\<close>

lemma roundDouble_not_NaN: "roundDouble x \<noteq> NaN"
  by (simp add: roundDouble_def withSign_def)

lemma rnd_not_NaN: "rnd m x \<noteq> NaN"
  by (cases m) (simp_all add: roundDouble_not_NaN)

lemma orZero_not_NaN: "orZero x \<noteq> NaN"
  by (cases x) (simp_all add: orZero_def)

lemma orZero_idem: "orZero (orZero x) = orZero x"
  by (cases x) (simp_all add: orZero_def)

lemma orZero_cases:
  "orZero x = (case x of Fin r \<Rightarrow> Fin r | PInf \<Rightarrow> PInf | NInf \<Rightarrow> NInf | NaN \<Rightarrow> Fin 0)"
  by (cases x) (simp_all add: orZero_def)



lemma jsge_4: "jsge x (Fin 4) = (x = PInf \<or> (\<exists>r. x = Fin r \<and> 4 \<le> r))"
  by (cases x) (simp_all add: jsge_def)

lemma jslt_not_jsge: "jslt x y \<Longrightarrow> \<not> jsge x y"
  by (cases x; cases y) (simp_all add: jsge_def)

text \<open>
  The algebra behind the projected difference, in exact arithmetic: multiplying back by
  the week count undoes both divisions, also for the infinities.
\<close>

lemma totalDiff_core:
  assumes "0 < w" and "inc \<noteq> NaN"
  shows "jsmul Exact (jssub Exact (jsdiv Exact np (Fin w))
            (if truthy inc then jsmul Exact (jsdiv Exact inc (Fin w)) (Fin (3 / 10)) else Fin 0))
            (Fin w)
         = jssub Exact np (jsmul Exact (Fin (3 / 10)) inc)"
  using assms by (cases np; cases inc) (simp_all add: jssub_def field_simps)

subsection \<open>Parsing\<close>

text \<open>The definitions that \<open>simp\<close> unfolds to run the arithmetic, the parser and the formatter.\<close>

lemmas round_eval =
  roundDouble_def withSign_def roundTo_def roundHalfEven_def nearestEven_def scale2_def
  floorLog2_def floorLog2Below_def bitLength.simps

lemmas parse_eval =
  parseAmount_def removeCommas_def orZero_def parseFloat_def stripSign_def startsWith_def
  is_ws_def is_ws2_def is_ws3_def is_digit_def exponentPart_def scale10_def digitsValue_def
  digitValue_def round_eval Let_def

lemmas format_eval =
  toFixed2_def formatAmount_def splitDot_def digitsOf.simps digitChar_def enUS_def
  enUS_numberFormat_def enUS_numberToString_def group3_def Let_def

lemma removeCommas_insert: "removeCommas (xs @ CHR '','' # ys) = removeCommas (xs @ ys)"
  by (simp add: removeCommas_def)

lemma takeWhile_Nil_iff: "(takeWhile P xs = []) = (case xs of [] \<Rightarrow> True | x # _ \<Rightarrow> \<not> P x)"
  by (cases xs) simp_all

text \<open>\<^verbatim>\<open>parseFloat\<close> fails exactly on the texts that do not start with a number.\<close>

lemma parseFloat_NaN_iff: "(parseFloat m s = NaN) = (\<not> startsNumber s)"
proof (cases "stripSign (trimStart s)")
  case (Pair neg u)
  show ?thesis
  proof (cases u)
    case Nil
    with Pair show ?thesis
      by (simp add: parseFloat_def startsNumber_def startsWith_def)
  next
    case (Cons c r)
    show ?thesis
    proof (cases "startsWith u ''Infinity''")
      case True
      with Pair show ?thesis
        by (simp add: parseFloat_def startsNumber_def)
    next
      case False
      show ?thesis
      proof (cases "is_digit c")
        case True
        with Pair Cons False show ?thesis
          by (simp add: parseFloat_def startsNumber_def Let_def rnd_not_NaN)
      next
        case nd: False
        with Pair Cons False show ?thesis
          by (cases r) (auto simp add: parseFloat_def startsNumber_def Let_def takeWhile_Nil_iff
              rnd_not_NaN split: list.splits)
      qed
    qed
  qed
qed

subsection \<open>Items\<close>

lemma interior_categories:
  "set (slice 1 5 INPUT_CATEGORIES) =
     {''Rent/Interest Paid'', ''Insurance Paid'', ''Maintenance'', ''Rates (Taxes)''}"
  by (simp add: slice_def INPUT_CATEGORIES_def)

lemma parsed_append: "parsed m (xs @ ys) = parsed m xs @ parsed m ys"
  by (simp add: parsed_def)

lemma parsed_Cons:
  "parsed m (it # ys) = \<lparr>name = name it, value = parseAmount m (amount it)\<rparr> # parsed m ys"
  by (simp add: parsed_def)

lemma parsed_value: "n \<in> set (parsed m items) \<Longrightarrow> orZero (value n) = value n"
  by (auto simp add: parsed_def parseAmount_def orZero_idem)

lemma valueOrZero_find:
  "valueOrZero (find P (parsed m items)) =
     (case find P (parsed m items) of None \<Rightarrow> Fin 0 | Some n \<Rightarrow> value n)"
proof (cases "find P (parsed m items)")
  case None
  then show ?thesis by (simp add: valueOrZero_def)
next
  case (Some n)
  then have "n \<in> set (parsed m items)"
    by (auto simp add: find_Some_iff)
  with Some show ?thesis by (simp add: valueOrZero_def parsed_value)
qed

lemma valueOrZero_not_NaN: "valueOrZero r \<noteq> NaN"
  by (cases r) (simp_all add: valueOrZero_def orZero_not_NaN)

lemma income_not_NaN: "income m items \<noteq> NaN"
  by (simp add: income_def valueOrZero_not_NaN)

lemma nonPrincipal_drop:
  assumes "name it \<notin> {''Rent/Interest Paid'', ''Insurance Paid'', ''Maintenance'', ''Rates (Taxes)''}"
  shows "nonPrincipal m (xs @ it # ys) = nonPrincipal m (xs @ ys)"
  using assms unfolding nonPrincipal_def interior_categories
  by (simp add: parsed_append parsed_Cons)

lemma nonPrincipal_append_other:
  assumes "\<forall>it \<in> set ys. name it \<notin>
     {''Rent/Interest Paid'', ''Insurance Paid'', ''Maintenance'', ''Rates (Taxes)''}"
  shows "nonPrincipal m (xs @ ys) = nonPrincipal m xs"
proof -
  have "filter (\<lambda>n. name n \<in>
      {''Rent/Interest Paid'', ''Insurance Paid'', ''Maintenance'', ''Rates (Taxes)''})
      (parsed m ys) = []"
    using assms by (auto simp add: parsed_def filter_empty_conv)
  then show ?thesis
    unfolding nonPrincipal_def interior_categories by (simp add: parsed_append)
qed

subsection \<open>The week count and the labels\<close>

lemma weeks_pos: "0 < weeks period"
  by (simp add: weeks_def)



lemma labels_distinct: "distinct [Ideal, CostBurdened, SeverelyCostBurdened]"
  by (simp add: Ideal_def CostBurdened_def SeverelyCostBurdened_def)

subsection \<open>The item lists of the form\<close>

text \<open>
  The form starts from the six reserved items, and neither adding a row nor changing an
  amount disturbs the shape: the reserved names first, then rows with the empty name.
\<close>

lemma reservedThenAdded_initialItems: "reservedThenAdded initialItems"
  by (simp add: reservedThenAdded_def initialItems_def comp_def)

lemma reservedThenAdded_handleAddRow:
  assumes "reservedThenAdded items"
  shows "reservedThenAdded (handleAddRow items)"
proof -
  from assms have l: "length INPUT_CATEGORIES \<le> length items"
    by (metis reservedThenAdded_def length_map length_append le_add1)
  with assms show ?thesis
    by (simp add: reservedThenAdded_def handleAddRow_def Suc_diff_le replicate_append_same)
qed

lemma map_name_handleChange: "map name (handleChange i ''amount'' v items) = map name items"
  by (simp add: handleChange_def updateField_def map_update list_update_same_conv)

lemma length_handleChange: "length (handleChange i field v items) = length items"
  by (simp add: handleChange_def)

lemma reservedThenAdded_handleChange:
  "reservedThenAdded items \<Longrightarrow> reservedThenAdded (handleChange i ''amount'' v items)"
  by (simp add: reservedThenAdded_def map_name_handleChange length_handleChange)

lemma nonPrincipal_reserved_only:
  assumes "reservedThenAdded items"
  shows "nonPrincipal m (take 6 items) = nonPrincipal m items"
proof -
  from assms have "map name (drop 6 items) =
      drop 6 (INPUT_CATEGORIES @ replicate (length items - length INPUT_CATEGORIES) '''')"
    by (simp add: reservedThenAdded_def drop_map [symmetric])
  then have "map name (drop 6 items) = replicate (length items - 6) ''''"
    by (simp add: INPUT_CATEGORIES_def)
  then have "\<forall>it \<in> set (drop 6 items). name it = ''''"
    by (metis (no_types, lifting) in_set_replicate image_eqI list.set_map)
  then have "nonPrincipal m (take 6 items @ drop 6 items) = nonPrincipal m (take 6 items)"
    by (intro nonPrincipal_append_other) simp
  then show ?thesis by simp
qed

subsection \<open>Divisions and products that are numbers\<close>




section \<open>The examples, evaluated\<close>

subsection \<open>The arithmetic of doubles\<close>

lemma roundDouble_examples:
  "roundDouble 300 = Fin 300"
  "roundDouble (3 / 10) = Fin (5404319552844595 / 18014398509481984)"
  "roundDouble (2 ^ 53 + 1) = Fin (2 ^ 53)"
  "roundDouble (2 ^ 53 + 3) = Fin (2 ^ 53 + 4)"
  "roundDouble (2 ^ 1024 - 2 ^ 970) = PInf"
  "roundDouble (- (10 ^ 400)) = NInf"
  "roundDouble (1 / 10 ^ 400) = Fin 0"
  by (simp_all add: round_eval)

lemma parseFloat_examples:
  "parseFloat Double ''12.5 kg'' = Fin (25 / 2)"
  "parseFloat Double ''  -1.5e2abc'' = Fin (- 150)"
  "parseFloat Double ''1e400'' = PInf"
  "parseFloat Double ''1e-400'' = Fin 0"
  "parseFloat Double ([CHR 0xC2, CHR 0xA0] @ ''12'') = Fin 12"
  "parseFloat Double ([CHR 0xEF, CHR 0xBB, CHR 0xBF, CHR 0xE2, CHR 0x80, CHR 0xA8] @ ''.5'') = Fin (1 / 2)"
  "parseFloat Double ''-Infinity%'' = NInf"
  "parseFloat Double ''abc'' = NaN"
  by (simp_all add: parse_eval)

subsection \<open>The worked example\<close>

lemma exampleItems_parsed:
  "parsed Double exampleItems =
     [\<lparr>name = ''Earnings'', value = Fin 1000\<rparr>,
      \<lparr>name = ''Rent/Interest Paid'', value = Fin 300\<rparr>,
      \<lparr>name = ''Insurance Paid'', value = Fin 50\<rparr>,
      \<lparr>name = ''Maintenance'', value = Fin 20\<rparr>,
      \<lparr>name = ''Rates (Taxes)'', value = Fin 30\<rparr>,
      \<lparr>name = ''Principal Paid'', value = Fin 100\<rparr>]"
  by (simp add: exampleItems_def parsed_def parse_eval)

lemma exampleItems_income: "income Double exampleItems = Fin 1000"
  by (simp add: income_def exampleItems_parsed valueOrZero_def orZero_def)

lemma exampleItems_nonPrincipal: "nonPrincipal Double exampleItems = Fin 400"
  unfolding nonPrincipal_def interior_categories
  by (simp add: exampleItems_parsed round_eval)


lemma exampleItems_weeklyRent:
  "weeklyRent Double ''Full Year'' exampleItems = Fin (8660768514174031 / 1125899906842624)"
  by (simp add: weeklyRent_def exampleItems_nonPrincipal weeks_def startsWith_def round_eval)

lemma exampleItems_affordableWeekly:
  "affordableWeekly Double ''Full Year'' exampleItems =
     Fin (6495576385630523 / 1125899906842624)"
  by (simp add: affordableWeekly_def exampleItems_income weeks_def startsWith_def round_eval)

text \<open>In doubles the projected difference of the example is not 100 but the next double.\<close>

lemma exampleItems_totalDiff:
  "totalDiff Double ''Full Year'' exampleItems = Fin (7036874417766401 / 70368744177664)"
  by (simp add: totalDiff_def exampleItems_weeklyRent exampleItems_affordableWeekly jssub_def
      weeks_def startsWith_def round_eval)

lemma exampleItems_exact:
  "income Exact exampleItems = Fin 1000" "nonPrincipal Exact exampleItems = Fin 400"
  unfolding nonPrincipal_def interior_categories income_def
  by (simp_all add: exampleItems_def parsed_def parse_eval valueOrZero_def)

lemma initialItems_parsed:
  "parsed m initialItems =
     [\<lparr>name = ''Earnings'', value = Fin 0\<rparr>,
      \<lparr>name = ''Rent/Interest Paid'', value = Fin 0\<rparr>,
      \<lparr>name = ''Insurance Paid'', value = Fin 0\<rparr>,
      \<lparr>name = ''Maintenance'', value = Fin 0\<rparr>,
      \<lparr>name = ''Rates (Taxes)'', value = Fin 0\<rparr>,
      \<lparr>name = ''Principal Paid'', value = Fin 0\<rparr>]"
  by (simp add: initialItems_def INPUT_CATEGORIES_def parsed_def parseAmount_def removeCommas_def
      orZero_def parseFloat_def stripSign_def startsWith_def)

lemma initialItems_income: "income m initialItems = Fin 0"
  by (simp add: income_def initialItems_parsed valueOrZero_def orZero_def)

lemma initialItems_nonPrincipal: "nonPrincipal Double initialItems = Fin 0"
  unfolding nonPrincipal_def interior_categories
  by (simp add: initialItems_parsed round_eval)

lemma formatAmount_zero: "formatAmount enUS (Fin 0) = ''0''"
  by (simp add: format_eval parse_eval)

lemma formatAmount_example_diff:
  "formatAmount enUS (Fin (541298032135877 / 281474976710656)) = ''1.92''"
  by (simp add: format_eval parse_eval)

lemma formatAmount_grouping: "formatAmount enUS (Fin (1234567891 / 1000)) = ''1,234,567.89''"
  by (simp add: format_eval parse_eval)

lemma formatAmount_NaN: "formatAmount enUS NaN = ''NaN.undefined''"
  by (simp add: format_eval parse_eval)

lemma initialItems_tableData:
  "tableData Double enUS ''Full Year'' initialItems =
     [\<lparr>name = ''Earnings'', value = Fin 0, percent = ''''\<rparr>,
      \<lparr>name = ''Rent/Interest Paid'', value = Fin 0, percent = ''''\<rparr>,
      \<lparr>name = ''Insurance Paid'', value = Fin 0, percent = ''''\<rparr>,
      \<lparr>name = ''Maintenance'', value = Fin 0, percent = ''''\<rparr>,
      \<lparr>name = ''Rates (Taxes)'', value = Fin 0, percent = ''''\<rparr>,
      \<lparr>name = ''Principal Paid'', value = Fin 0, percent = ''''\<rparr>,
      \<lparr>name = ''Total Non-Principal Housing Expense'', value = Fin 0, percent = ''''\<rparr>,
      \<lparr>name = ''Total Mortgage Outlay'', value = Fin 0, percent = ''''\<rparr>,
      \<lparr>name = ''Estimated Weekly Rent'', value = Fin 0, percent = ''Under by $0''\<rparr>,
      \<lparr>name = ''Affordable Weekly Rent'', value = Fin 0, percent = ''''\<rparr>]"
  by (simp add: tableData_def finalItems_def tableRow_def percentOfIncome_def
      initialItems_parsed initialItems_income initialItems_nonPrincipal weeklyRent_def
      affordableWeekly_def valueOrZero_def orZero_def jssub_def jsgt_def formatAmount_zero
      weeks_def startsWith_def round_eval)

lemma exampleItems_tableData:
  "tableData Double enUS ''Full Year'' exampleItems =
     [\<lparr>name = ''Earnings'', value = Fin 1000, percent = ''''\<rparr>,
      \<lparr>name = ''Rent/Interest Paid'', value = Fin 300, percent = ''30.00%''\<rparr>,
      \<lparr>name = ''Insurance Paid'', value = Fin 50, percent = ''5.00%''\<rparr>,
      \<lparr>name = ''Maintenance'', value = Fin 20, percent = ''2.00%''\<rparr>,
      \<lparr>name = ''Rates (Taxes)'', value = Fin 30, percent = ''3.00%''\<rparr>,
      \<lparr>name = ''Principal Paid'', value = Fin 100, percent = ''10.00%''\<rparr>,
      \<lparr>name = ''Total Non-Principal Housing Expense'', value = Fin 400, percent = ''40.00%''\<rparr>,
      \<lparr>name = ''Total Mortgage Outlay'', value = Fin 400, percent = ''40.00%''\<rparr>,
      \<lparr>name = ''Estimated Weekly Rent'', value = Fin (8660768514174031 / 1125899906842624),
       percent = ''Overspending by $1.92''\<rparr>,
      \<lparr>name = ''Affordable Weekly Rent'', value = Fin (6495576385630523 / 1125899906842624),
       percent = ''''\<rparr>]"
  by (simp add: tableData_def finalItems_def tableRow_def percentOfIncome_def
      exampleItems_parsed exampleItems_income exampleItems_nonPrincipal
      exampleItems_weeklyRent exampleItems_affordableWeekly valueOrZero_def orZero_def
      jssub_def jsgt_def formatAmount_example_diff toFixed2_def digitsOf.simps digitChar_def
      round_eval Let_def)

subsection \<open>Amounts that are rounded, and amounts that are not finite\<close>

text \<open>
  The four interior amounts of \<open>roundedItems\<close> add up to 900 on paper. Added from left to
  right in doubles they give the next double above 900, and the principal of 4210.73 is
  3.994999999999999 percent of the income, printed as 3.99; in exact arithmetic it is
  3.995 percent, printed as 4.00.
\<close>

lemma roundedItems_nonPrincipal:
  "nonPrincipal Double roundedItems = Fin (7916483719987201 / 8796093022208)"
  "nonPrincipal Exact roundedItems = Fin 900"
  unfolding nonPrincipal_def interior_categories
  by (simp_all add: roundedItems_def parsed_def parse_eval)

lemma roundedItems_income: "income m roundedItems = Fin 105400"
  by (cases m) (simp_all add: income_def roundedItems_def parsed_def parse_eval valueOrZero_def)

lemma roundedItems_principal:
  "parseAmount Double ''4210.73'' = Fin (1157436649106309 / 274877906944)"
  "percentOfIncome Double enUS roundedItems (Fin (1157436649106309 / 274877906944)) = ''3.99%''"
  "percentOfIncome Exact enUS roundedItems (Fin (421073 / 100)) = ''4.00%''"
  by (simp_all add: percentOfIncome_def roundedItems_income parse_eval toFixed2_def
      digitsOf.simps digitChar_def)

lemma infiniteItems_parsed:
  "parsed m infiniteItems =
     [\<lparr>name = ''Rent/Interest Paid'', value = PInf\<rparr>,
      \<lparr>name = ''Insurance Paid'', value = NInf\<rparr>]"
  by (simp add: infiniteItems_def parsed_def parseAmount_def removeCommas_def orZero_def
      parseFloat_def stripSign_def startsWith_def is_ws_def is_ws2_def is_ws3_def Let_def)

lemma infiniteItems_values:
  "income m infiniteItems = Fin 0"
  "nonPrincipal m infiniteItems = NaN"
  "weeklyRent m period infiniteItems = NaN"
  "affordableWeekly m period infiniteItems = Fin 0"
  unfolding nonPrincipal_def interior_categories income_def weeklyRent_def affordableWeekly_def
  by (simp_all add: infiniteItems_parsed valueOrZero_def)

lemma infiniteItems_tableData:
  "tableData Double enUS ''Full Year'' infiniteItems =
     [\<lparr>name = ''Rent/Interest Paid'', value = PInf, percent = ''''\<rparr>,
      \<lparr>name = ''Insurance Paid'', value = NInf, percent = ''''\<rparr>,
      \<lparr>name = ''Total Non-Principal Housing Expense'', value = NaN, percent = ''''\<rparr>,
      \<lparr>name = ''Total Mortgage Outlay'', value = PInf, percent = ''''\<rparr>,
      \<lparr>name = ''Estimated Weekly Rent'', value = NaN, percent = ''Under by $NaN.undefined''\<rparr>,
      \<lparr>name = ''Affordable Weekly Rent'', value = Fin 0, percent = ''''\<rparr>]"
  by (simp add: tableData_def finalItems_def tableRow_def percentOfIncome_def
      infiniteItems_values infiniteItems_parsed jssub_def jsgt_def formatAmount_NaN
      valueOrZero_def orZero_def)

section \<open>The claims\<close>

subsection \<open>The non-principal housing total\<close>

text \<open>
  Claim C1. For every list of items, the non-principal housing total \<open>nonPrincipal\<close> is
  the sum, added from left to right starting from 0, of the values of exactly the parsed
  items named "Rent/Interest Paid", "Insurance Paid", "Maintenance" and "Rates (Taxes)".
  An item with any other name contributes nothing: taking it out of the list leaves the
  total as it was. In particular an item named "Earnings" or "Principal Paid" contributes
  nothing, and neither does a row that the user added: the form keeps the six reserved
  items first and gives every added row the empty name, so the total of the whole list is
  the total of its first six items.
\<close>

theorem nonPrincipal_interior_sum:
  "nonPrincipal m items =
     foldl (jsadd m) (Fin 0)
       (map value
         (filter (\<lambda>n. name n = ''Rent/Interest Paid'' \<or> name n = ''Insurance Paid'' \<or>
                       name n = ''Maintenance'' \<or> name n = ''Rates (Taxes)'')
            (parsed m items)))
   \<and> (\<forall>xs it ys.
          items = xs @ it # ys \<and>
          name it \<notin> {''Rent/Interest Paid'', ''Insurance Paid'', ''Maintenance'', ''Rates (Taxes)''}
          \<longrightarrow> nonPrincipal m items = nonPrincipal m (xs @ ys))
   \<and> (\<forall>a. nonPrincipal m (items @ [\<lparr>name = ''Earnings'', amount = a\<rparr>]) = nonPrincipal m items)
   \<and> (\<forall>a. nonPrincipal m (items @ [\<lparr>name = ''Principal Paid'', amount = a\<rparr>]) =
          nonPrincipal m items)
   \<and> nonPrincipal m (handleAddRow items) = nonPrincipal m items
   \<and> reservedThenAdded initialItems
   \<and> (reservedThenAdded items \<longrightarrow>
        reservedThenAdded (handleAddRow items)
        \<and> (\<forall>i v. reservedThenAdded (handleChange i ''amount'' v items))
        \<and> nonPrincipal m (take 6 items) = nonPrincipal m items)"
proof -
  have eq: "nonPrincipal m items =
     foldl (jsadd m) (Fin 0)
       (map value
         (filter (\<lambda>n. name n = ''Rent/Interest Paid'' \<or> name n = ''Insurance Paid'' \<or>
                       name n = ''Maintenance'' \<or> name n = ''Rates (Taxes)'')
            (parsed m items)))"
    unfolding nonPrincipal_def interior_categories by (simp add: foldl_map)
  have drop: "\<forall>xs it ys.
          items = xs @ it # ys \<and>
          name it \<notin> {''Rent/Interest Paid'', ''Insurance Paid'', ''Maintenance'', ''Rates (Taxes)''}
          \<longrightarrow> nonPrincipal m items = nonPrincipal m (xs @ ys)"
    by (intro allI impI, elim conjE) (simp add: nonPrincipal_drop)
  have e: "\<forall>a. nonPrincipal m (items @ [\<lparr>name = ''Earnings'', amount = a\<rparr>]) = nonPrincipal m items"
    using nonPrincipal_drop [of "\<lparr>name = ''Earnings'', amount = a\<rparr>" m items "[]" for a] by simp
  have p: "\<forall>a. nonPrincipal m (items @ [\<lparr>name = ''Principal Paid'', amount = a\<rparr>]) =
          nonPrincipal m items"
    using nonPrincipal_drop [of "\<lparr>name = ''Principal Paid'', amount = a\<rparr>" m items "[]" for a]
    by simp
  have u: "nonPrincipal m (handleAddRow items) = nonPrincipal m items"
    using nonPrincipal_drop [of "\<lparr>name = '''', amount = ''''\<rparr>" m items "[]"]
    by (simp add: handleAddRow_def)
  have inv: "reservedThenAdded items \<longrightarrow>
        reservedThenAdded (handleAddRow items)
        \<and> (\<forall>i v. reservedThenAdded (handleChange i ''amount'' v items))
        \<and> nonPrincipal m (take 6 items) = nonPrincipal m items"
    by (simp add: reservedThenAdded_handleAddRow reservedThenAdded_handleChange
        nonPrincipal_reserved_only)
  show ?thesis
    by (intro conjI) (rule eq drop e p u reservedThenAdded_initialItems inv)+
qed

theorem nonPrincipal_interior_sum_witness:
  "nonPrincipal Double
     [\<lparr>name = ''Earnings'', amount = ''1,000''\<rparr>, \<lparr>name = ''Rent/Interest Paid'', amount = ''300''\<rparr>,
      \<lparr>name = ''Maintenance'', amount = ''20.5''\<rparr>, \<lparr>name = ''Principal Paid'', amount = ''100''\<rparr>,
      \<lparr>name = '''', amount = ''7''\<rparr>] = Fin (641 / 2)
   \<and> nonPrincipal Double
     [\<lparr>name = ''Earnings'', amount = ''1,000''\<rparr>, \<lparr>name = ''Rent/Interest Paid'', amount = ''300''\<rparr>,
      \<lparr>name = ''Maintenance'', amount = ''20.5''\<rparr>, \<lparr>name = ''Principal Paid'', amount = ''100''\<rparr>,
      \<lparr>name = '''', amount = ''7''\<rparr>]
     = nonPrincipal Double
     [\<lparr>name = ''Rent/Interest Paid'', amount = ''300''\<rparr>,
      \<lparr>name = ''Maintenance'', amount = ''20.5''\<rparr>, \<lparr>name = ''Principal Paid'', amount = ''100''\<rparr>,
      \<lparr>name = '''', amount = ''7''\<rparr>]
   \<and> reservedThenAdded (handleAddRow initialItems)
   \<and> nonPrincipal Double (take 6 (handleAddRow initialItems)) =
       nonPrincipal Double (handleAddRow initialItems)"
proof -
  let ?items = "[\<lparr>name = ''Earnings'', amount = ''1,000''\<rparr>, \<lparr>name = ''Rent/Interest Paid'', amount = ''300''\<rparr>,
      \<lparr>name = ''Maintenance'', amount = ''20.5''\<rparr>, \<lparr>name = ''Principal Paid'', amount = ''100''\<rparr>,
      \<lparr>name = '''', amount = ''7''\<rparr>]"
  have vals: "map value
             (filter (\<lambda>n. name n = ''Rent/Interest Paid'' \<or> name n = ''Insurance Paid'' \<or>
                           name n = ''Maintenance'' \<or> name n = ''Rates (Taxes)'')
                (parsed Double ?items)) = [Fin 300, Fin (41 / 2)]"
    by (simp add: parsed_def parse_eval)
  have sum: "foldl (jsadd Double) (Fin 0) [Fin 300, Fin (41 / 2)] = Fin (641 / 2)"
    by (simp add: round_eval)
  have nm: "name \<lparr>name = ''Earnings'', amount = ''1,000''\<rparr> \<notin>
      {''Rent/Interest Paid'', ''Insurance Paid'', ''Maintenance'', ''Rates (Taxes)''}"
    by simp
  note c = nonPrincipal_interior_sum [of Double ?items]
  have a: "nonPrincipal Double ?items = Fin (641 / 2)"
    using c [THEN conjunct1] by (simp only: vals sum)
  have b: "nonPrincipal Double ?items = nonPrincipal Double (tl ?items)"
    using c [THEN conjunct2, THEN conjunct1, rule_format,
        of "[]" "\<lparr>name = ''Earnings'', amount = ''1,000''\<rparr>"] nm
    by simp
  note i = nonPrincipal_interior_sum [of Double initialItems]
  have r: "reservedThenAdded initialItems"
    using i by (elim conjE)
  have d: "reservedThenAdded (handleAddRow initialItems)"
    using i r by (elim conjE) simp
  have f: "nonPrincipal Double (take 6 (handleAddRow initialItems)) =
      nonPrincipal Double (handleAddRow initialItems)"
    using nonPrincipal_interior_sum [of Double "handleAddRow initialItems"] d
    by (elim conjE) simp
  from a b d f show ?thesis by simp
qed

subsection \<open>The classification\<close>

text \<open>
  Claim C2. For every percent \<open>p\<close> (in particular every non-negative one),
  \<open>getClassification\<close> returns the label Ideal when \<open>p \<le> 30\<close>, the label Cost-burdened
  when \<open>30 < p \<le> 50\<close>, and the label Severely cost-burdened when \<open>p > 50\<close>. At the
  boundaries: 30 is Ideal, 30.0001 is Cost-burdened, 50 is Cost-burdened and 50.0001 is
  Severely cost-burdened. The three labels are different strings.
\<close>

theorem getClassification_buckets:
  "(p \<le> 30 \<longrightarrow> getClassification (Fin p) = Ideal)
   \<and> (30 < p \<and> p \<le> 50 \<longrightarrow> getClassification (Fin p) = CostBurdened)
   \<and> (50 < p \<longrightarrow> getClassification (Fin p) = SeverelyCostBurdened)
   \<and> getClassification (Fin 30) = Ideal
   \<and> getClassification (Fin (300001 / 10000)) = CostBurdened
   \<and> getClassification (Fin 50) = CostBurdened
   \<and> getClassification (Fin (500001 / 10000)) = SeverelyCostBurdened
   \<and> distinct [Ideal, CostBurdened, SeverelyCostBurdened]"
  using labels_distinct by (simp add: getClassification_def)

theorem getClassification_buckets_witness:
  "getClassification (Fin 12) = Ideal \<and> getClassification (Fin 40) = CostBurdened
   \<and> getClassification (Fin 75) = SeverelyCostBurdened"
  using getClassification_buckets [of 12] getClassification_buckets [of 40]
    getClassification_buckets [of 75]
  by simp

subsection \<open>The week count\<close>

text \<open>
  Claim C3, as stated, fails: a period that is none of the six options may still get 13
  weeks rather than 52, since line 66 tests only the first character. The string
  \<^verbatim>\<open>Q5\<close> is not an option and has 13 weeks.
\<close>

theorem weeks_Q5_counterexample:
  "''Q5'' \<notin> set PERIOD_OPTIONS \<and> weeks ''Q5'' = 13 \<and> weeks ''Q5'' \<noteq> 52"
  by (simp add: PERIOD_OPTIONS_def weeks_def startsWith_def)

text \<open>
  Claim C3, amended. For every string period, the week count is 13 when the period is one
  of Q1, Q2, Q3, Q4, and more generally whenever it starts with the letter Q; it is 26
  when the period is "6 Months"; and it is 52 for every other string, "Full Year"
  included. It is always one of 13, 26 and 52: no period is rejected.
\<close>

theorem weeks_mapping:
  "(period \<in> {''Q1'', ''Q2'', ''Q3'', ''Q4''} \<longrightarrow> weeks period = 13)
   \<and> (period = ''6 Months'' \<longrightarrow> weeks period = 26)
   \<and> (period = ''Full Year'' \<longrightarrow> weeks period = 52)
   \<and> (\<forall>rest. period = CHR ''Q'' # rest \<longrightarrow> weeks period = 13)
   \<and> ((period = [] \<or> hd period \<noteq> CHR ''Q'') \<and> period \<noteq> ''6 Months'' \<longrightarrow> weeks period = 52)
   \<and> weeks period \<in> {13, 26, 52}"
  by (cases period) (auto simp add: weeks_def startsWith_def)

theorem weeks_mapping_witness:
  "weeks ''Q3'' = 13 \<and> weeks ''6 Months'' = 26 \<and> weeks ''Full Year'' = 52
   \<and> weeks ''Quarter'' = 13 \<and> weeks ''Yearly'' = 52"
  using weeks_mapping [of "''Q3''"] weeks_mapping [of "''6 Months''"]
    weeks_mapping [of "''Full Year''"] weeks_mapping [of "''Quarter''"]
    weeks_mapping [of "''Yearly''"]
  by simp

subsection \<open>The percent column\<close>

text \<open>
  Claim C4, as stated, fails for the row "Estimated Weekly Rent": when the income is 0 its
  percent field is not empty, and it may show NaN. With the six initial items and no
  amount entered the income is 0, and the ninth row of the table reads "Under by $0".
  With a rent of \<^verbatim>\<open>Infinity\<close>, an insurance of \<^verbatim>\<open>-Infinity\<close> and no earnings the income is
  0 and that row reads "Under by $NaN.undefined".
\<close>

theorem percent_income_zero_counterexample:
  "income Double initialItems = Fin 0
   \<and> tableData Double enUS ''Full Year'' initialItems ! 8 =
       \<lparr>name = ''Estimated Weekly Rent'', value = Fin 0, percent = ''Under by $0''\<rparr>
   \<and> percent (tableData Double enUS ''Full Year'' initialItems ! 8) \<noteq> ''''
   \<and> income Double infiniteItems = Fin 0
   \<and> tableData Double enUS ''Full Year'' infiniteItems ! 4 =
       \<lparr>name = ''Estimated Weekly Rent'', value = NaN, percent = ''Under by $NaN.undefined''\<rparr>"
  by (simp add: initialItems_income initialItems_tableData infiniteItems_values
      infiniteItems_tableData)

text \<open>
  Claim C4, amended. In the table of the report, the percent field of every row named
  "Earnings" or "Affordable Weekly Rent" is the empty string, for every input. When the
  income is 0, the percent field of every row other than "Estimated Weekly Rent" is the
  empty string as well: no division by zero is made for it (its checked percent
  expression returns the empty string) and it shows neither NaN nor an infinity. The row
  "Estimated Weekly Rent" holds instead, for every input, the text "Overspending by $" or
  "Under by $" followed by the formatted difference between its value and the affordable
  weekly rent: "Overspending" with the difference when the difference is above 0, "Under"
  with its absolute value otherwise.
\<close>

theorem percent_empty:
  "\<forall>d \<in> set (tableData m h period items).
     (name d = ''Earnings'' \<or> name d = ''Affordable Weekly Rent'' \<longrightarrow> percent d = '''')
     \<and> (income m items = Fin 0 \<and> name d \<noteq> ''Estimated Weekly Rent'' \<longrightarrow>
          percent d = ''''
          \<and> percentOfIncome_checked m h items (value d) = Some ''''
          \<and> percent d \<notin> {toFixed2 h NaN @ ''%'', toFixed2 h PInf @ ''%'', toFixed2 h NInf @ ''%''})
     \<and> (name d = ''Estimated Weekly Rent'' \<longrightarrow>
          percent d =
            (if jsgt (jssub m (value d) (affordableWeekly m period items)) (Fin 0)
             then ''Overspending by $'' @
                    formatAmount h (jssub m (value d) (affordableWeekly m period items))
             else ''Under by $'' @
                    formatAmount h (jsabs (jssub m (value d) (affordableWeekly m period items)))))"
proof
  fix d
  assume "d \<in> set (tableData m h period items)"
  then obtain it where d: "d = tableRow m h period items it"
    by (auto simp add: tableData_def)
  have a: "name d = ''Earnings'' \<or> name d = ''Affordable Weekly Rent'' \<longrightarrow> percent d = ''''"
    unfolding d by (simp add: tableRow_def Let_def)
  have b: "income m items = Fin 0 \<and> name d \<noteq> ''Estimated Weekly Rent'' \<longrightarrow>
          percent d = ''''
          \<and> percentOfIncome_checked m h items (value d) = Some ''''
          \<and> percent d \<notin> {toFixed2 h NaN @ ''%'', toFixed2 h PInf @ ''%'', toFixed2 h NInf @ ''%''}"
    unfolding d by (simp add: tableRow_def percentOfIncome_def percentOfIncome_checked_def Let_def)
  have c: "name d = ''Estimated Weekly Rent'' \<longrightarrow>
          percent d =
            (if jsgt (jssub m (value d) (affordableWeekly m period items)) (Fin 0)
             then ''Overspending by $'' @
                    formatAmount h (jssub m (value d) (affordableWeekly m period items))
             else ''Under by $'' @
                    formatAmount h (jsabs (jssub m (value d) (affordableWeekly m period items))))"
    unfolding d by (simp add: tableRow_def Let_def)
  show "(name d = ''Earnings'' \<or> name d = ''Affordable Weekly Rent'' \<longrightarrow> percent d = '''')
     \<and> (income m items = Fin 0 \<and> name d \<noteq> ''Estimated Weekly Rent'' \<longrightarrow>
          percent d = ''''
          \<and> percentOfIncome_checked m h items (value d) = Some ''''
          \<and> percent d \<notin> {toFixed2 h NaN @ ''%'', toFixed2 h PInf @ ''%'', toFixed2 h NInf @ ''%''})
     \<and> (name d = ''Estimated Weekly Rent'' \<longrightarrow>
          percent d =
            (if jsgt (jssub m (value d) (affordableWeekly m period items)) (Fin 0)
             then ''Overspending by $'' @
                    formatAmount h (jssub m (value d) (affordableWeekly m period items))
             else ''Under by $'' @
                    formatAmount h (jsabs (jssub m (value d) (affordableWeekly m period items)))))"
    by (intro conjI) (rule a b c)+
qed

theorem percent_empty_witness:
  "percent (tableData Double enUS ''Full Year'' exampleItems ! 0) = ''''
   \<and> percent (tableData Double enUS ''Full Year'' exampleItems ! 9) = ''''
   \<and> percent (tableData Double enUS ''Full Year'' initialItems ! 1) = ''''
   \<and> percentOfIncome_checked Double enUS initialItems (Fin 0) = Some ''''
   \<and> percent (tableData Double enUS ''Full Year'' initialItems ! 8) = ''Under by $0''
   \<and> percent (tableData Double enUS ''Full Year'' exampleItems ! 8) = ''Overspending by $1.92''"
proof -
  let ?e = "tableData Double enUS ''Full Year'' exampleItems"
  let ?i = "tableData Double enUS ''Full Year'' initialItems"
  have e: "?e ! 0 \<in> set ?e" "?e ! 9 \<in> set ?e" "?e ! 8 \<in> set ?e"
    by (simp_all add: exampleItems_tableData)
  have i: "?i ! 1 \<in> set ?i" "?i ! 8 \<in> set ?i"
    by (simp_all add: initialItems_tableData)
  have n: "name (?e ! 0) = ''Earnings''" "name (?e ! 9) = ''Affordable Weekly Rent''"
    "name (?i ! 1) = ''Rent/Interest Paid''" "name (?i ! 8) = ''Estimated Weekly Rent''"
    "name (?e ! 8) = ''Estimated Weekly Rent''"
    by (simp_all add: exampleItems_tableData initialItems_tableData)
  have v: "value (?i ! 1) = Fin 0" "value (?i ! 8) = Fin 0"
    "value (?e ! 8) = Fin (8660768514174031 / 1125899906842624)"
    by (simp_all add: exampleItems_tableData initialItems_tableData)
  have aw: "affordableWeekly Double ''Full Year'' initialItems = Fin 0"
    by (simp add: affordableWeekly_def initialItems_income)
  have d8: "jssub Double (Fin (8660768514174031 / 1125899906842624))
      (Fin (6495576385630523 / 1125899906842624)) = Fin (541298032135877 / 281474976710656)"
    "jssub Double (Fin 0) (Fin 0) = Fin 0"
    by (simp_all add: jssub_def round_eval)
  have w1: "percent (?e ! 0) = ''''"
    using percent_empty [of Double enUS "''Full Year''" exampleItems, THEN bspec, OF e(1)] n(1)
    by simp
  have w2: "percent (?e ! 9) = ''''"
    using percent_empty [of Double enUS "''Full Year''" exampleItems, THEN bspec, OF e(2)] n(2)
    by simp
  have w3: "percent (?i ! 1) = '''' \<and> percentOfIncome_checked Double enUS initialItems (Fin 0) = Some ''''"
    using percent_empty [of Double enUS "''Full Year''" initialItems, THEN bspec, OF i(1)] n(3)
      v(1) initialItems_income [of Double]
    by simp
  have w4: "percent (?i ! 8) = ''Under by $0''"
    using percent_empty [of Double enUS "''Full Year''" initialItems, THEN bspec, OF i(2)] n(4)
    by (simp add: v(2) aw d8 jsgt_def formatAmount_zero)
  have w5: "percent (?e ! 8) = ''Overspending by $1.92''"
    using percent_empty [of Double enUS "''Full Year''" exampleItems, THEN bspec, OF e(3)] n(5)
    by (simp add: v(3) exampleItems_affordableWeekly d8 jsgt_def formatAmount_example_diff)
  from w1 w2 w3 w4 w5 show ?thesis by simp
qed

subsection \<open>The chart\<close>

text \<open>
  Claim C5. For every input, the chart series holds exactly the rows of the table that
  are not named "Earnings" and whose percent field, read by \<^verbatim>\<open>parseFloat\<close> as the number
  at its start, is at least 4 (an infinity included), in the order of the table. Every
  row whose percent field reads as a number below 4 is excluded, and so is every row
  whose percent field does not start with a number.
\<close>

theorem chartItems_rows:
  "(\<forall>d. d \<in> set (chartItems m h period items) \<longleftrightarrow>
        d \<in> set (tableData m h period items) \<and> name d \<noteq> ''Earnings'' \<and>
        (parseFloat m (percent d) = PInf \<or> (\<exists>r. parseFloat m (percent d) = Fin r \<and> 4 \<le> r)))
   \<and> (\<forall>d \<in> set (tableData m h period items).
        jslt (parseFloat m (percent d)) (Fin 4) \<longrightarrow> d \<notin> set (chartItems m h period items))
   \<and> (\<forall>d \<in> set (tableData m h period items).
        \<not> startsNumber (percent d) \<longrightarrow> d \<notin> set (chartItems m h period items))
   \<and> chartItems m h period items =
       filter (\<lambda>d. d \<in> set (chartItems m h period items)) (tableData m h period items)"
proof -
  have a: "\<forall>d. d \<in> set (chartItems m h period items) \<longleftrightarrow>
        d \<in> set (tableData m h period items) \<and> name d \<noteq> ''Earnings'' \<and>
        (parseFloat m (percent d) = PInf \<or> (\<exists>r. parseFloat m (percent d) = Fin r \<and> 4 \<le> r))"
    by (simp add: chartItems_def jsge_4)
  have b: "\<forall>d \<in> set (tableData m h period items).
        jslt (parseFloat m (percent d)) (Fin 4) \<longrightarrow> d \<notin> set (chartItems m h period items)"
    by (simp add: chartItems_def jslt_not_jsge)
  have c: "\<forall>d \<in> set (tableData m h period items).
        \<not> startsNumber (percent d) \<longrightarrow> d \<notin> set (chartItems m h period items)"
    by (simp add: chartItems_def jsge_def parseFloat_NaN_iff [of m, symmetric])
  have d: "chartItems m h period items =
       filter (\<lambda>d. d \<in> set (chartItems m h period items)) (tableData m h period items)"
    unfolding chartItems_def by (rule filter_cong) simp_all
  show ?thesis by (intro conjI) (rule a b c d)+
qed

theorem chartItems_rows_witness:
  "chartItems Double enUS ''Full Year'' exampleItems =
     [\<lparr>name = ''Rent/Interest Paid'', value = Fin 300, percent = ''30.00%''\<rparr>,
      \<lparr>name = ''Insurance Paid'', value = Fin 50, percent = ''5.00%''\<rparr>,
      \<lparr>name = ''Principal Paid'', value = Fin 100, percent = ''10.00%''\<rparr>,
      \<lparr>name = ''Total Non-Principal Housing Expense'', value = Fin 400, percent = ''40.00%''\<rparr>,
      \<lparr>name = ''Total Mortgage Outlay'', value = Fin 400, percent = ''40.00%''\<rparr>]"
proof -
  have pf: "parseFloat Double '''' = NaN" "parseFloat Double ''30.00%'' = Fin 30"
    "parseFloat Double ''5.00%'' = Fin 5" "parseFloat Double ''2.00%'' = Fin 2"
    "parseFloat Double ''3.00%'' = Fin 3" "parseFloat Double ''10.00%'' = Fin 10"
    "parseFloat Double ''40.00%'' = Fin 40"
    "parseFloat Double ''Overspending by $1.92'' = NaN"
    by (simp_all add: parse_eval)
  note c = chartItems_rows [of Double enUS "''Full Year''" exampleItems]
  have m: "d \<in> set (chartItems Double enUS ''Full Year'' exampleItems) \<longleftrightarrow>
        d \<in> set (tableData Double enUS ''Full Year'' exampleItems) \<and> name d \<noteq> ''Earnings'' \<and>
        (parseFloat Double (percent d) = PInf \<or>
         (\<exists>r. parseFloat Double (percent d) = Fin r \<and> 4 \<le> r))" for d
    using c by (elim conjE) (rule spec)
  have "chartItems Double enUS ''Full Year'' exampleItems =
       filter (\<lambda>d. d \<in> set (chartItems Double enUS ''Full Year'' exampleItems))
         (tableData Double enUS ''Full Year'' exampleItems)"
    using c by (elim conjE)
  then show ?thesis
    unfolding m by (simp add: exampleItems_tableData pf)
qed

subsection \<open>The narrative\<close>

text \<open>
  Claim C6. For every item list (and every period and host), the narrative has exactly 4
  lines when the items hold an item named "Principal Paid", whatever its amount, and
  exactly 3 lines otherwise.
\<close>

theorem templates_length:
  "length (templates m h period items) =
     (if (\<exists>it \<in> set items. name it = ''Principal Paid'') then 4 else 3)"
proof -
  have "(find (\<lambda>d. name d = ''Principal Paid'') (parsed m items) = None)
          = (\<not> (\<exists>it \<in> set items. name it = ''Principal Paid''))"
    by (auto simp add: find_None_iff parsed_def)
  then show ?thesis
    by (cases "find (\<lambda>d. name d = ''Principal Paid'') (parsed m items)")
       (auto simp add: templates_def)
qed

theorem templates_length_witness:
  "length (templates Double enUS ''Full Year'' initialItems) = 4
   \<and> length (templates Double enUS ''Q1'' (handleAddRow [])) = 3"
  using templates_length [of Double enUS "''Full Year''" initialItems]
    templates_length [of Double enUS "''Q1''" "handleAddRow []"]
  by (simp add: initialItems_def INPUT_CATEGORIES_def handleAddRow_def)

subsection \<open>Parsing an amount\<close>

text \<open>
  Claim C7. For every raw amount string, the commas are removed (wherever commas stand
  in the string, the result is the same without them) and the rest is parsed by
  \<^verbatim>\<open>parseFloat\<close>, which skips the white space of ECMAScript at the start, reads the
  longest decimal number that follows and rounds it to a double. The result is always a
  number and never NaN: when the text does not start with a number, so that \<^verbatim>\<open>parseFloat\<close>
  fails, the result is 0, and when it does, the result is the number that \<^verbatim>\<open>parseFloat\<close>
  read. The model has no failure value besides NaN, and nothing on this path can throw,
  so no parse failure reaches the caller: no parsed item has the value NaN. In doubles,
  \<^verbatim>\<open>1,234.50\<close> is read as 1234.5, \<^verbatim>\<open>abc\<close> and the empty string as 0, a no-break space
  followed by \<^verbatim>\<open>12\<close> as 12, \<^verbatim>\<open>1e400\<close> as infinity and \<^verbatim>\<open>1e-400\<close> as 0.
\<close>

theorem parseAmount_total:
  "parseAmount m raw \<noteq> NaN
   \<and> parseAmount m raw =
       (case parseFloat m (filter (\<lambda>c. c \<noteq> CHR '','') raw) of
          Fin r \<Rightarrow> Fin r | PInf \<Rightarrow> PInf | NInf \<Rightarrow> NInf | NaN \<Rightarrow> Fin 0)
   \<and> (\<not> startsNumber (filter (\<lambda>c. c \<noteq> CHR '','') raw) \<longrightarrow> parseAmount m raw = Fin 0)
   \<and> (startsNumber (filter (\<lambda>c. c \<noteq> CHR '','') raw) \<longrightarrow>
        parseAmount m raw = parseFloat m (filter (\<lambda>c. c \<noteq> CHR '','') raw))
   \<and> (\<forall>xs ys. parseAmount m (xs @ CHR '','' # ys) = parseAmount m (xs @ ys))
   \<and> NaN \<notin> value ` set (parsed m items)
   \<and> parseAmount Double ''1,234.50'' = Fin (2469 / 2)
   \<and> parseAmount Double ''abc'' = Fin 0
   \<and> parseAmount Double '''' = Fin 0
   \<and> parseAmount Double ([CHR 0xC2, CHR 0xA0] @ ''12'') = Fin 12
   \<and> parseAmount Double ''1e400'' = PInf
   \<and> parseAmount Double ''1e-400'' = Fin 0"
proof -
  have a: "parseAmount m raw \<noteq> NaN"
    by (simp add: parseAmount_def orZero_not_NaN)
  have b: "parseAmount m raw =
       (case parseFloat m (filter (\<lambda>c. c \<noteq> CHR '','') raw) of
          Fin r \<Rightarrow> Fin r | PInf \<Rightarrow> PInf | NInf \<Rightarrow> NInf | NaN \<Rightarrow> Fin 0)"
    unfolding parseAmount_def removeCommas_def by (rule orZero_cases)
  have s: "\<not> startsNumber (filter (\<lambda>c. c \<noteq> CHR '','') raw) \<longrightarrow> parseAmount m raw = Fin 0"
    by (simp add: b parseFloat_NaN_iff [of m, symmetric])
  have t: "startsNumber (filter (\<lambda>c. c \<noteq> CHR '','') raw) \<longrightarrow>
        parseAmount m raw = parseFloat m (filter (\<lambda>c. c \<noteq> CHR '','') raw)"
    using parseFloat_NaN_iff [of m "filter (\<lambda>c. c \<noteq> CHR '','') raw"]
    by (cases "parseFloat m (filter (\<lambda>c. c \<noteq> CHR '','') raw)") (simp_all add: b)
  have c: "\<forall>xs ys. parseAmount m (xs @ CHR '','' # ys) = parseAmount m (xs @ ys)"
    by (simp add: parseAmount_def removeCommas_insert)
  have d: "NaN \<notin> value ` set (parsed m items)"
    by (auto simp add: parsed_def parseAmount_def orZero_not_NaN [symmetric])
  have e: "parseAmount Double ''1,234.50'' = Fin (2469 / 2)" by (simp add: parse_eval)
  have f: "parseAmount Double ''abc'' = Fin 0" by (simp add: parse_eval)
  have g: "parseAmount Double '''' = Fin 0" by (simp add: parse_eval)
  have h: "parseAmount Double ([CHR 0xC2, CHR 0xA0] @ ''12'') = Fin 12"
    by (simp add: parse_eval)
  have i: "parseAmount Double ''1e400'' = PInf"
    by (simp add: parseAmount_def removeCommas_def orZero_def parseFloat_examples)
  have j: "parseAmount Double ''1e-400'' = Fin 0"
    by (simp add: parseAmount_def removeCommas_def orZero_def parseFloat_examples)
  show ?thesis by (intro conjI) (rule a b s t c d e f g h i j)+
qed

theorem parseAmount_total_witness:
  "parseAmount Double ''12,345.6 per year'' = Fin (6787065375935693 / 549755813888)
   \<and> parseAmount Double ''n/a'' = Fin 0
   \<and> parseAmount Double ''1,2'' = parseAmount Double ''12''
   \<and> parseAmount Double ''-7,5.25e1x'' = parseFloat Double ''-75.25e1x''"
proof -
  have a: "parseFloat Double (filter (\<lambda>c. c \<noteq> CHR '','') ''12,345.6 per year'') =
      Fin (6787065375935693 / 549755813888)"
    by (simp add: parse_eval)
  have b: "\<not> startsNumber (filter (\<lambda>c. c \<noteq> CHR '','') ''n/a'')"
    by (simp add: startsNumber_def stripSign_def startsWith_def is_ws_def is_ws2_def is_ws3_def
        is_digit_def)
  have c: "startsNumber (filter (\<lambda>c. c \<noteq> CHR '','') ''-7,5.25e1x'')"
    by (simp add: startsNumber_def stripSign_def startsWith_def is_ws_def is_ws2_def is_ws3_def
        is_digit_def)
  have w1: "parseAmount Double ''12,345.6 per year'' = Fin (6787065375935693 / 549755813888)"
    using parseAmount_total [of Double "''12,345.6 per year''" "[]", THEN conjunct2, THEN conjunct1]
    by (simp only: a jsnum.case)
  have w2: "parseAmount Double ''n/a'' = Fin 0"
    using parseAmount_total [of Double "''n/a''" "[]", THEN conjunct2, THEN conjunct2,
        THEN conjunct1] b
    by (rule mp)
  have w3: "parseAmount Double ''1,2'' = parseAmount Double ''12''"
    using parseAmount_total [of Double "[]" "[]", THEN conjunct2, THEN conjunct2, THEN conjunct2,
        THEN conjunct2, THEN conjunct1, rule_format, of "''1''" "''2''"]
    by simp
  have w4: "parseAmount Double ''-7,5.25e1x'' =
      parseFloat Double (filter (\<lambda>c. c \<noteq> CHR '','') ''-7,5.25e1x'')"
    using parseAmount_total [of Double "''-7,5.25e1x''" "[]", THEN conjunct2, THEN conjunct2,
        THEN conjunct2, THEN conjunct1] c
    by (rule mp)
  have w5: "parseAmount Double ''-7,5.25e1x'' = parseFloat Double ''-75.25e1x''"
    using w4 by simp
  show ?thesis by (intro conjI) (rule w1 w2 w3 w5)+
qed

subsection \<open>The rows of the report\<close>

text \<open>
  Claim C8. For every input, the final items are the parsed items in their order, followed
  by the rows "Total Non-Principal Housing Expense", "Total Mortgage Outlay", "Estimated
  Weekly Rent" and "Affordable Weekly Rent" in this order. The value of "Total Mortgage
  Outlay" is the value of the first item named "Rent/Interest Paid" plus the value of the
  first item named "Principal Paid", each taken as 0 when there is no such item. The rows
  of the table keep these names and these values.
\<close>

theorem finalItems_sequence:
  "finalItems m period items =
     parsed m items @
     [\<lparr>name = ''Total Non-Principal Housing Expense'', value = nonPrincipal m items\<rparr>,
      \<lparr>name = ''Total Mortgage Outlay'',
       value =
         jsadd m
           (case find (\<lambda>n. name n = ''Rent/Interest Paid'') (parsed m items) of
              None \<Rightarrow> Fin 0 | Some n \<Rightarrow> value n)
           (case find (\<lambda>n. name n = ''Principal Paid'') (parsed m items) of
              None \<Rightarrow> Fin 0 | Some n \<Rightarrow> value n)\<rparr>,
      \<lparr>name = ''Estimated Weekly Rent'', value = weeklyRent m period items\<rparr>,
      \<lparr>name = ''Affordable Weekly Rent'', value = affordableWeekly m period items\<rparr>]
   \<and> map name (tableData m h period items) =
       map name items @
       [''Total Non-Principal Housing Expense'', ''Total Mortgage Outlay'',
        ''Estimated Weekly Rent'', ''Affordable Weekly Rent'']
   \<and> map value (tableData m h period items) = map value (finalItems m period items)"
proof -
  have row: "name (tableRow m h period items it) = name it
      \<and> value (tableRow m h period items it) = value it" for it
    by (simp add: tableRow_def Let_def)
  have a: "finalItems m period items =
     parsed m items @
     [\<lparr>name = ''Total Non-Principal Housing Expense'', value = nonPrincipal m items\<rparr>,
      \<lparr>name = ''Total Mortgage Outlay'',
       value =
         jsadd m
           (case find (\<lambda>n. name n = ''Rent/Interest Paid'') (parsed m items) of
              None \<Rightarrow> Fin 0 | Some n \<Rightarrow> value n)
           (case find (\<lambda>n. name n = ''Principal Paid'') (parsed m items) of
              None \<Rightarrow> Fin 0 | Some n \<Rightarrow> value n)\<rparr>,
      \<lparr>name = ''Estimated Weekly Rent'', value = weeklyRent m period items\<rparr>,
      \<lparr>name = ''Affordable Weekly Rent'', value = affordableWeekly m period items\<rparr>]"
    by (simp add: finalItems_def valueOrZero_find)
  have b: "map name (tableData m h period items) =
       map name items @
       [''Total Non-Principal Housing Expense'', ''Total Mortgage Outlay'',
        ''Estimated Weekly Rent'', ''Affordable Weekly Rent'']"
    by (simp add: tableData_def finalItems_def row parsed_def comp_def)
  have c: "map value (tableData m h period items) = map value (finalItems m period items)"
    by (simp add: tableData_def row comp_def)
  show ?thesis by (intro conjI) (rule a b c)+
qed

theorem finalItems_sequence_witness:
  "finalItems Double ''Full Year'' exampleItems =
     [\<lparr>name = ''Earnings'', value = Fin 1000\<rparr>,
      \<lparr>name = ''Rent/Interest Paid'', value = Fin 300\<rparr>,
      \<lparr>name = ''Insurance Paid'', value = Fin 50\<rparr>,
      \<lparr>name = ''Maintenance'', value = Fin 20\<rparr>,
      \<lparr>name = ''Rates (Taxes)'', value = Fin 30\<rparr>,
      \<lparr>name = ''Principal Paid'', value = Fin 100\<rparr>,
      \<lparr>name = ''Total Non-Principal Housing Expense'', value = Fin 400\<rparr>,
      \<lparr>name = ''Total Mortgage Outlay'', value = Fin 400\<rparr>,
      \<lparr>name = ''Estimated Weekly Rent'', value = Fin (8660768514174031 / 1125899906842624)\<rparr>,
      \<lparr>name = ''Affordable Weekly Rent'', value = Fin (6495576385630523 / 1125899906842624)\<rparr>]"
proof -
  have s: "roundDouble 400 = Fin 400"
    by (simp add: round_eval)
  show ?thesis
    using finalItems_sequence [of Double "''Full Year''" exampleItems enUS]
    by (simp add: exampleItems_parsed exampleItems_nonPrincipal exampleItems_weeklyRent
        exampleItems_affordableWeekly s)
qed

subsection \<open>The projected difference over the period\<close>

text \<open>
  Claim C9. In exact arithmetic, the total projected difference
  \<open>(weeklyRent - affordableWeekly) * weeks\<close> is the non-principal total minus 0.3 times
  the income: for finite values it is \<open>n - 0.3 * i\<close>. The week count cancels, so the
  figure is the same for every period.
\<close>

theorem totalDiff_period_free:
  "totalDiff Exact period items =
     jssub Exact (nonPrincipal Exact items) (jsmul Exact (Fin (3 / 10)) (income Exact items))
   \<and> (\<forall>i n. income Exact items = Fin i \<and> nonPrincipal Exact items = Fin n
          \<longrightarrow> totalDiff Exact period items = Fin (n - 3 / 10 * i))
   \<and> totalDiff Exact period items = totalDiff Exact period' items"
proof -
  have a: "totalDiff Exact p items =
      jssub Exact (nonPrincipal Exact items) (jsmul Exact (Fin (3 / 10)) (income Exact items))"
    for p
    unfolding totalDiff_def weeklyRent_def affordableWeekly_def rnd.simps
    by (rule totalDiff_core) (simp_all add: weeks_pos income_not_NaN)
  have b: "\<forall>i n. income Exact items = Fin i \<and> nonPrincipal Exact items = Fin n
          \<longrightarrow> totalDiff Exact period items = Fin (n - 3 / 10 * i)"
    by (simp add: a jssub_def)
  have c: "totalDiff Exact period items = totalDiff Exact period' items"
    by (simp add: a)
  show ?thesis by (intro conjI) (rule a b c)+
qed

theorem totalDiff_period_free_witness:
  "totalDiff Exact ''Full Year'' exampleItems = Fin 100
   \<and> totalDiff Exact ''Q1'' exampleItems = Fin 100"
  using totalDiff_period_free [of "''Full Year''" exampleItems "''Q1''"]
    totalDiff_period_free [of "''Q1''" exampleItems "''Q1''"]
  by (simp add: exampleItems_exact jssub_def)

subsection \<open>The divisors\<close>



end
